theory Spec2Isabelle
  imports Complex_Main "HOL-Library.Word" "HOL-Library.AList"
begin

section \<open>Data model\<close>

text \<open>
  A Python \<open>float\<close> is an IEEE binary64 value: a finite value (kept as the rational it
  denotes), an infinity or a NaN. The sign of zero is not kept; \<open>0.0 == -0.0\<close> in
  Python and nothing below tells them apart.
\<close>

datatype pyfloat = Finite rat | PosInf | NegInf | NaN

text \<open>
  The values a document holds. An \<open>ObjectId\<close> is a 12-byte key, a \<open>datetime\<close> is the
  instant in milliseconds (the resolution BSON keeps), a \<open>dict\<close> is an association list
  in insertion order.
\<close>

datatype val =
    VNone
  | VBool bool
  | VInt int
  | VFloat pyfloat
  | VStr string
  | VOid "96 word"
  | VTime int
  | VList "val list"
  | VDict "(string \<times> val) list"

type_synonym doc = "(string \<times> val) list"

datatype error =
    DatabaseNotAvailable
  | InvalidId string
  | DuplicateKeyError
  | WriteError
  | OverflowError
  | HTTPException nat string

text \<open>
  \<open>db\<close> of \<open>database.py\<close>: \<open>None\<close> when the connection settings are absent, otherwise
  the database, a family of collections addressed by name, each the list of its
  documents in insertion order.
\<close>

record store =
  db :: "(string \<Rightarrow> doc list) option"

text \<open>
  What the code takes from outside the repository and the model takes as parameters:
  Python's \<open>str\<close> on values other than strings and ObjectIds, the query engine's
  reading of a filter document, of a sort specification and of a non-zero limit, and
  which of its two algorithms the interpreter's built-in \<open>sum\<close> uses on floats: the
  plain running total, or the compensated one of CPython from 3.12 on.
\<close>

record runtime =
  rt_str :: "val \<Rightarrow> string"
  rt_matches :: "doc \<Rightarrow> doc \<Rightarrow> bool"
  rt_sort :: "(string \<times> int) list \<Rightarrow> doc list \<Rightarrow> doc list"
  rt_limit :: "int \<Rightarrow> doc list \<Rightarrow> doc list"
  rt_compensated_sum :: bool

record update_result =
  matched_count :: nat
  modified_count :: nat

section \<open>Identifier codec\<close>

definition hex_digit :: "nat \<Rightarrow> char" where
  "hex_digit d = (if d < 10 then char_of (48 + d) else char_of (87 + d))"

definition hex_val :: "char \<Rightarrow> nat option" where
  "hex_val c =
     (let n = (of_char c :: nat) in
      if 48 \<le> n \<and> n \<le> 57 then Some (n - 48)
      else if 97 \<le> n \<and> n \<le> 102 then Some (n - 87)
      else if 65 \<le> n \<and> n \<le> 70 then Some (n - 55)
      else None)"

fun to_hex :: "nat \<Rightarrow> nat \<Rightarrow> string" where
  "to_hex 0 n = []"
| "to_hex (Suc k) n = to_hex k (n div 16) @ [hex_digit (n mod 16)]"

fun from_hex :: "nat \<Rightarrow> string \<Rightarrow> nat option" where
  "from_hex acc [] = Some acc"
| "from_hex acc (c # cs) =
     (case hex_val c of None \<Rightarrow> None | Some d \<Rightarrow> from_hex (16 * acc + d) cs)"

definition oid_str :: "96 word \<Rightarrow> string" where
  \<comment> \<open>Modelled from the spec: \<open>encode\<close> of the Identifier Codec (\<open>str\<close> of a bson
      ObjectId), the 24 lower-case hexadecimal digits of the 12-byte key.\<close>
  "oid_str k = to_hex 24 (unat k)"

definition ObjectId :: "string \<Rightarrow> error + 96 word" where
  \<comment> \<open>Modelled from the spec: \<open>decode\<close> of the Identifier Codec (the bson ObjectId
      constructor on a string), failing with InvalidId unless the string is a
      well-formed key: 24 hexadecimal digits.\<close>
  "ObjectId s =
     (if length s = 24 then
        (case from_hex 0 s of None \<Rightarrow> Inl (InvalidId s) | Some n \<Rightarrow> Inr (of_nat n))
      else Inl (InvalidId s))"

definition py_str :: "runtime \<Rightarrow> val \<Rightarrow> string" where
  "py_str rt v = (case v of VStr s \<Rightarrow> s | VOid k \<Rightarrow> oid_str k | _ \<Rightarrow> rt_str rt v)"

section \<open>Database driver\<close>

definition has_id :: "val \<Rightarrow> doc \<Rightarrow> bool" where
  "has_id key d = (map_of d ''_id'' = Some key)"

definition insert_one :: "96 word \<Rightarrow> doc \<Rightarrow> doc list \<Rightarrow> error + (doc list \<times> val)" where
  \<comment> \<open>Modelled from the spec: insert-one of the database driver, which is not part of
      the repository. As the driver documents it, a document that brings no \<open>_id\<close>
      gets the freshly generated key \<open>fresh\<close>, a document that brings one keeps it,
      and a key already in the collection is refused.\<close>
  "insert_one fresh document coll =
     (let (key, stored) =
        (case map_of document ''_id'' of
           Some v \<Rightarrow> (v, document)
         | None \<Rightarrow> (VOid fresh, document @ [(''_id'', VOid fresh)]))
      in if list_ex (has_id key) coll then Inl DuplicateKeyError
         else Inr (coll @ [stored], key))"

definition find_one :: "val \<Rightarrow> doc list \<Rightarrow> doc option" where
  \<comment> \<open>Modelled from the spec: find-one-by-predicate of the database driver, for the
      predicate the code uses, equality on \<open>_id\<close>: the first match.\<close>
  "find_one key coll = find (has_id key) coll"

definition set_fields :: "doc \<Rightarrow> doc \<Rightarrow> doc" where
  \<comment> \<open>each field of \<open>upd\<close> replaces the field of that name in \<open>d\<close> or is added to it\<close>
  "set_fields upd d = foldr (\<lambda>(k, v). AList.update k v) upd d"

fun update_one :: "val \<Rightarrow> doc \<Rightarrow> doc list \<Rightarrow> error + (doc list \<times> update_result)" where
  \<comment> \<open>Modelled from the spec: update-one of the database driver with a \<open>$set\<close> update,
      field-merge semantics with modified-count feedback. The first match is merged; as
      the driver documents it, the match counts as modified when the merge changed it,
      and a merge that would change \<open>_id\<close> is refused.\<close>
  "update_one key upd [] = Inr ([], \<lparr>matched_count = 0, modified_count = 0\<rparr>)"
| "update_one key upd (d # ds) =
     (if has_id key d then
        (if map_of upd ''_id'' \<noteq> None \<and> map_of upd ''_id'' \<noteq> Some key then Inl WriteError
         else Inr (set_fields upd d # ds,
                   \<lparr>matched_count = 1,
                    modified_count = (if set_fields upd d = d then 0 else 1)\<rparr>))
      else
        (case update_one key upd ds of
           Inl e \<Rightarrow> Inl e
         | Inr (ds', r) \<Rightarrow> Inr (d # ds', r)))"

fun delete_one :: "val \<Rightarrow> doc list \<Rightarrow> doc list \<times> nat" where
  \<comment> \<open>Modelled from the spec: delete-one of the database driver with deleted-count
      feedback: the first match is removed.\<close>
  "delete_one key [] = ([], 0)"
| "delete_one key (d # ds) =
     (if has_id key d then (ds, 1)
      else (let (ds', n) = delete_one key ds in (d # ds', n)))"

section \<open>Document store (database.py)\<close>

text \<open>
  The functions that write take the store and return the result with the store after the
  call; a raised exception is the \<open>Inl\<close> result. What a call reads from its
  environment is an argument: \<open>now\<close> is the reading of \<open>datetime.now\<close>, \<open>fresh\<close>
  the key the driver generates for a document without \<open>_id\<close>.
\<close>

definition serialize_doc :: "runtime \<Rightarrow> doc option \<Rightarrow> doc option" where
  "serialize_doc rt doc =
     (case doc of
        None \<Rightarrow> None
      | Some d \<Rightarrow>
          if d = [] then None
          else (case map_of d ''_id'' of
                  Some v \<Rightarrow> Some (AList.update ''_id'' (VStr (py_str rt v)) d)
                | None \<Rightarrow> Some d))"

definition create_document ::
  "runtime \<Rightarrow> int \<Rightarrow> 96 word \<Rightarrow> store \<Rightarrow> string \<Rightarrow> doc \<Rightarrow> (error + string) \<times> store" where
  "create_document rt now fresh s collection_name data =
     (case db s of
        None \<Rightarrow> (Inl DatabaseNotAvailable, s)
      | Some d \<Rightarrow>
          (let payload = AList.update ''updated_at'' (VTime now)
                           (AList.update ''created_at'' (VTime now) data)
           in case insert_one fresh payload (d collection_name) of
                Inl e \<Rightarrow> (Inl e, s)
              | Inr (coll, inserted_id) \<Rightarrow>
                  (Inr (py_str rt inserted_id),
                   s\<lparr>db := Some (d(collection_name := coll))\<rparr>)))"

definition get_documents ::
  "runtime \<Rightarrow> store \<Rightarrow> string \<Rightarrow> doc option \<Rightarrow> int option \<Rightarrow> (string \<times> int) list option
     \<Rightarrow> error + doc option list" where
  "get_documents rt s collection_name filter_dict limit sort_spec =
     (case db s of
        None \<Rightarrow> Inl DatabaseNotAvailable
      | Some d \<Rightarrow>
          (let flt = (case filter_dict of None \<Rightarrow> [] | Some f \<Rightarrow> f);
               cursor = filter (rt_matches rt flt) (d collection_name);
               cursor = (if sort_spec \<noteq> None \<and> sort_spec \<noteq> Some []
                         then rt_sort rt (the sort_spec) cursor
                         else cursor);
               cursor = (if limit \<noteq> None \<and> limit \<noteq> Some 0 then rt_limit rt (the limit) cursor
                         else cursor)
           in Inr (map (\<lambda>doc. serialize_doc rt (Some doc)) cursor)))"

definition get_document_by_id :: "runtime \<Rightarrow> store \<Rightarrow> string \<Rightarrow> string \<Rightarrow> error + doc option" where
  "get_document_by_id rt s collection_name ident =
     (case db s of
        None \<Rightarrow> Inl DatabaseNotAvailable
      | Some d \<Rightarrow>
          (case ObjectId ident of
             Inl e \<Rightarrow> Inr None
           | Inr k \<Rightarrow>
               (case find_one (VOid k) (d collection_name) of
                  None \<Rightarrow> Inr None
                | Some doc \<Rightarrow> if doc = [] then Inr None else Inr (serialize_doc rt (Some doc)))))"

definition update_document ::
  "int \<Rightarrow> store \<Rightarrow> string \<Rightarrow> string \<Rightarrow> doc \<Rightarrow> (error + bool) \<times> store" where
  "update_document now s collection_name ident update_data =
     (case db s of
        None \<Rightarrow> (Inl DatabaseNotAvailable, s)
      | Some d \<Rightarrow>
          (let upd = AList.update ''updated_at'' (VTime now) update_data
           in case ObjectId ident of
                Inl e \<Rightarrow> (Inl e, s)
              | Inr k \<Rightarrow>
                  (case update_one (VOid k) upd (d collection_name) of
                     Inl e \<Rightarrow> (Inl e, s)
                   | Inr (coll, result) \<Rightarrow>
                       (Inr (modified_count result > 0),
                        s\<lparr>db := Some (d(collection_name := coll))\<rparr>))))"

definition delete_document :: "store \<Rightarrow> string \<Rightarrow> string \<Rightarrow> (error + bool) \<times> store" where
  "delete_document s collection_name ident =
     (case db s of
        None \<Rightarrow> (Inl DatabaseNotAvailable, s)
      | Some d \<Rightarrow>
          (case ObjectId ident of
             Inl e \<Rightarrow> (Inl e, s)
           | Inr k \<Rightarrow>
               (let (coll, deleted_count) = delete_one (VOid k) (d collection_name)
                in (Inr (deleted_count > 0), s\<lparr>db := Some (d(collection_name := coll))\<rparr>))))"

section \<open>Python float arithmetic\<close>

text \<open>
  Every operation is the exact operation on the values followed by rounding to the
  nearest binary64 value, ties to the even significand; \<open>round(x, 2)\<close> goes through
  the nearest two-digit decimal, ties to the even digit.
\<close>

function bit_length :: "int \<Rightarrow> nat" where
  "bit_length n = (if n \<le> 0 then 0 else Suc (bit_length (n div 2)))"
  by pat_completeness auto
termination
  by (relation "measure nat") auto

declare bit_length.simps [simp del]

definition pow2 :: "int \<Rightarrow> rat" where
  "pow2 e = (if 0 \<le> e then 2 ^ nat e else 1 / 2 ^ nat (- e))"

definition floor_log2 :: "rat \<Rightarrow> int" where
  \<comment> \<open>for \<open>0 < a\<close>: the \<open>k\<close> with \<open>2\<^sup>k \<le> a < 2\<^sup>k\<^sup>+\<^sup>1\<close>\<close>
  "floor_log2 a =
     (let (p, q) = quotient_of a;
          k = int (bit_length p) - int (bit_length q)
      in if pow2 k \<le> a then k else k - 1)"

definition round_half_even :: "rat \<Rightarrow> int" where
  "round_half_even x =
     (let f = \<lfloor>x\<rfloor>; r = x - of_int f
      in if r < 1 / 2 then f
         else if 1 / 2 < r then f + 1
         else if even f then f else f + 1)"

definition binary64 :: "rat \<Rightarrow> pyfloat" where
  \<comment> \<open>the binary64 value nearest to \<open>x\<close>, ties to the even significand: 53 bits of
      significand, least exponent \<open>-1074\<close>, overflow to an infinity\<close>
  "binary64 x =
     (if x = 0 then Finite 0
      else
        (let a = \<bar>x\<bar>;
             e = max (floor_log2 a - 52) (- 1074);
             r = of_int (round_half_even (a / pow2 e)) * pow2 e
         in if pow2 1024 \<le> r then (if 0 < x then PosInf else NegInf)
            else Finite (if 0 < x then r else - r)))"

definition sign_of :: "pyfloat \<Rightarrow> rat" where
  "sign_of x = (case x of Finite a \<Rightarrow> sgn a | PosInf \<Rightarrow> 1 | NegInf \<Rightarrow> - 1 | NaN \<Rightarrow> 0)"

definition float_mul :: "pyfloat \<Rightarrow> pyfloat \<Rightarrow> pyfloat" where
  "float_mul x y =
     (case (x, y) of
        (Finite a, Finite b) \<Rightarrow> binary64 (a * b)
      | _ \<Rightarrow>
          if x = NaN \<or> y = NaN \<or> sign_of x * sign_of y = 0 then NaN
          else if 0 < sign_of x * sign_of y then PosInf else NegInf)"

definition float_add :: "pyfloat \<Rightarrow> pyfloat \<Rightarrow> pyfloat" where
  "float_add x y =
     (case (x, y) of
        (Finite a, Finite b) \<Rightarrow> binary64 (a + b)
      | (Finite a, _) \<Rightarrow> y
      | (_, Finite b) \<Rightarrow> x
      | _ \<Rightarrow> if x = y then x else NaN)"

definition float_neg :: "pyfloat \<Rightarrow> pyfloat" where
  "float_neg x =
     (case x of Finite a \<Rightarrow> Finite (- a) | PosInf \<Rightarrow> NegInf | NegInf \<Rightarrow> PosInf | NaN \<Rightarrow> NaN)"

definition float_sub :: "pyfloat \<Rightarrow> pyfloat \<Rightarrow> pyfloat" where
  "float_sub x y = float_add x (float_neg y)"

definition abs_ge :: "pyfloat \<Rightarrow> pyfloat \<Rightarrow> bool" where
  \<comment> \<open>\<open>fabs(x) >= fabs(y)\<close>, false when either is a NaN\<close>
  "abs_ge x y =
     (case (x, y) of
        (NaN, _) \<Rightarrow> False
      | (_, NaN) \<Rightarrow> False
      | (Finite a, Finite b) \<Rightarrow> \<bar>b\<bar> \<le> \<bar>a\<bar>
      | (Finite a, _) \<Rightarrow> False
      | _ \<Rightarrow> True)"

definition float_of_int :: "int \<Rightarrow> error + pyfloat" where
  \<comment> \<open>the conversion of the \<open>int\<close> operand of a mixed operation; an \<open>int\<close> beyond the
      range of \<open>float\<close> raises\<close>
  "float_of_int n =
     (case binary64 (of_int n) of Finite r \<Rightarrow> Inr (Finite r) | _ \<Rightarrow> Inl OverflowError)"

definition py_round2 :: "pyfloat \<Rightarrow> error + pyfloat" where
  \<comment> \<open>\<open>round(x, 2)\<close>: the decimal with two fractional digits nearest to the exact value
      of \<open>x\<close>, ties to the even digit, read back as a \<open>float\<close>\<close>
  "py_round2 x =
     (case x of
        Finite q \<Rightarrow>
          (case binary64 (of_int (round_half_even (q * 100)) / 100) of
             Finite r \<Rightarrow> Inr (Finite r)
           | _ \<Rightarrow> Inl OverflowError)
      | _ \<Rightarrow> Inr x)"

section \<open>Order handlers (main.py)\<close>

text \<open>
  The request models, fields in the order of their declaration. In \<open>create_order\<close>,
  \<open>tag\<close> is the ObjectId generated for the order number and \<open>fresh\<close> the key the
  driver generates for the stored order.
\<close>

record CartItem =
  item_id :: string
  title :: string
  price :: pyfloat
  quantity :: int
  image_url :: "string option"

record CreateOrderRequest =
  user_id :: "string option"
  items :: "CartItem list"
  "notes" :: "string option"
  contact_email :: "string option"
  contact_phone :: "string option"
  pickup_name :: "string option"

record UpdateOrderStatusRequest =
  status :: string

definition opt_str :: "string option \<Rightarrow> val" where
  "opt_str x = (case x of None \<Rightarrow> VNone | Some s \<Rightarrow> VStr s)"

definition cart_item_dump :: "CartItem \<Rightarrow> doc" where
  "cart_item_dump i =
     [(''item_id'', VStr (item_id i)), (''title'', VStr (title i)),
      (''price'', VFloat (price i)), (''quantity'', VInt (quantity i)),
      (''image_url'', opt_str (image_url i))]"

definition upper_char :: "char \<Rightarrow> char" where
  "upper_char c =
     (let n = (of_char c :: nat) in if 97 \<le> n \<and> n \<le> 122 then char_of (n - 32) else c)"

definition line_total :: "CartItem \<Rightarrow> error + pyfloat" where
  \<comment> \<open>\<open>i.price * i.quantity\<close>, a \<open>float\<close> times an \<open>int\<close>\<close>
  "line_total i =
     (case float_of_int (quantity i) of
        Inl e \<Rightarrow> Inl e
      | Inr q \<Rightarrow> Inr (float_mul (price i) q))"

fun sum_plain :: "pyfloat \<Rightarrow> CartItem list \<Rightarrow> error + pyfloat" where
  \<comment> \<open>the running total \<open>f\<close> of the built-in \<open>sum\<close> before CPython 3.12\<close>
  "sum_plain f [] = Inr f"
| "sum_plain f (i # rest) =
     (case line_total i of
        Inl e \<Rightarrow> Inl e
      | Inr x \<Rightarrow> sum_plain (float_add f x) rest)"

fun sum_compensated :: "pyfloat \<Rightarrow> pyfloat \<Rightarrow> CartItem list \<Rightarrow> error + pyfloat" where
  \<comment> \<open>the built-in \<open>sum\<close> of CPython from 3.12 on: the running total \<open>f\<close> with the
      compensation \<open>c\<close> of the rounding errors, which is added at the end when it is
      finite and not zero\<close>
  "sum_compensated f c [] =
     Inr (case c of Finite e \<Rightarrow> if e \<noteq> 0 then float_add f c else f | _ \<Rightarrow> f)"
| "sum_compensated f c (i # rest) =
     (case line_total i of
        Inl e \<Rightarrow> Inl e
      | Inr x \<Rightarrow>
          (let t = float_add f x;
               c' = (if abs_ge f x then float_add c (float_add (float_sub f t) x)
                     else float_add c (float_add (float_sub x t) f))
           in sum_compensated t c' rest))"

definition sum_lines :: "bool \<Rightarrow> CartItem list \<Rightarrow> error + pyfloat" where
  \<comment> \<open>\<open>sum(i.price * i.quantity for i in items)\<close>: the start value 0 plus the first
      product, then the running total in the interpreter's algorithm; an empty list gives
      the start value\<close>
  "sum_lines compensated lines =
     (case lines of
        [] \<Rightarrow> Inr (Finite 0)
      | i # rest \<Rightarrow>
          (case line_total i of
             Inl e \<Rightarrow> Inl e
           | Inr x \<Rightarrow>
               if compensated then sum_compensated (float_add (Finite 0) x) (Finite 0) rest
               else sum_plain (float_add (Finite 0) x) rest))"

definition create_order ::
  "runtime \<Rightarrow> int \<Rightarrow> 96 word \<Rightarrow> 96 word \<Rightarrow> store \<Rightarrow> CreateOrderRequest \<Rightarrow> (error + doc) \<times> store" where
  "create_order rt now tag fresh s payload =
     (if items payload = [] then (Inl (HTTPException 400 ''Cart is empty''), s)
      else
        (case sum_lines (rt_compensated_sum rt) (items payload) of
           Inl e \<Rightarrow> (Inl e, s)
         | Inr subtotal \<Rightarrow>
        (case py_round2 (float_mul subtotal (binary64 (8 / 100))) of
           Inl e \<Rightarrow> (Inl e, s)
         | Inr tax \<Rightarrow>
        (case py_round2 (float_add subtotal tax) of
           Inl e \<Rightarrow> (Inl e, s)
         | Inr total' \<Rightarrow>
            (let order_number = ''ORD-'' @ map upper_char (drop 18 (oid_str tag));
                 order =
                   [(''user_id'', opt_str (user_id payload)),
                    (''order_number'', VStr order_number),
                    (''items'', VList (map (\<lambda>i. VDict (cart_item_dump i)) (items payload))),
                    (''subtotal'', VFloat subtotal),
                    (''tax'', VFloat tax),
                    (''total'', VFloat total'),
                    (''status'', VStr ''pending''),
                    (''notes'', opt_str (notes payload)),
                    (''contact_email'', opt_str (contact_email payload)),
                    (''contact_phone'', opt_str (contact_phone payload)),
                    (''pickup_name'', opt_str (pickup_name payload))]
             in case create_document rt now fresh s ''order'' order of
                  (Inl e, s') \<Rightarrow> (Inl e, s')
                | (Inr order_id, s') \<Rightarrow>
                    (Inr [(''_id'', VStr order_id), (''order_number'', VStr order_number),
                          (''total'', VFloat total')], s'))))))"

definition update_order_status ::
  "int \<Rightarrow> store \<Rightarrow> string \<Rightarrow> UpdateOrderStatusRequest \<Rightarrow> (error + doc) \<times> store" where
  "update_order_status now s order_id payload =
     (case update_document now s ''order'' order_id [(''status'', VStr (status payload))] of
        (Inl e, s') \<Rightarrow> (Inl e, s')
      | (Inr ok, s') \<Rightarrow>
          if \<not> ok then (Inl (HTTPException 404 ''Order not found''), s')
          else (Inr [(''updated'', VBool True)], s'))"

section \<open>Example data\<close>

definition example_runtime :: runtime where
  "example_runtime =
     \<lparr>rt_str = (\<lambda>v. ''?''), rt_matches = (\<lambda>flt d. True),
      rt_sort = (\<lambda>spec ds. ds), rt_limit = (\<lambda>n ds. take (nat \<bar>n\<bar>) ds),
      rt_compensated_sum = False\<rparr>"


definition empty_store :: store where
  "empty_store = \<lparr>db = Some (\<lambda>c. [])\<rparr>"

definition pizza :: doc where
  "pizza = [(''_id'', VOid 1), (''name'', VStr ''Pizza''), (''updated_at'', VTime 5)]"

definition category_store :: store where
  "category_store = \<lparr>db = Some ((\<lambda>c. [])(''category'' := [pizza]))\<rparr>"

definition order_doc :: doc where
  "order_doc = [(''_id'', VOid 3), (''order_number'', VStr ''ORD-0000AB''),
                (''status'', VStr ''pending''), (''updated_at'', VTime 5)]"

definition order_store :: store where
  "order_store = \<lparr>db = Some ((\<lambda>c. [])(''order'' := [order_doc]))\<rparr>"

definition empty_cart :: CreateOrderRequest where
  "empty_cart =
     \<lparr>user_id = None, items = [], notes = Some ''no onions'', contact_email = None,
      contact_phone = None, pickup_name = Some ''Ada''\<rparr>"



definition three_cart :: CreateOrderRequest where
  \<comment> \<open>three lines, of prices 0.1, 0.2 and 0.3, on which the two algorithms of the
      built-in \<open>sum\<close> differ\<close>
  "three_cart =
     \<lparr>user_id = None,
      items = [\<lparr>item_id = ''i4'', title = ''Mint'', price = binary64 (1 / 10), quantity = 1,
                image_url = None\<rparr>,
               \<lparr>item_id = ''i5'', title = ''Sage'', price = binary64 (2 / 10), quantity = 1,
                image_url = None\<rparr>,
               \<lparr>item_id = ''i6'', title = ''Dill'', price = binary64 (3 / 10), quantity = 1,
                image_url = None\<rparr>],
      notes = None, contact_email = None, contact_phone = None, pickup_name = None\<rparr>"


section \<open>The identifier codec round-trips\<close>

lemma hex_val_hex_digit: "d < 16 \<Longrightarrow> hex_val (hex_digit d) = Some d"
  by (auto simp: hex_val_def hex_digit_def Let_def)

lemma from_hex_append:
  "from_hex acc (xs @ ys) = (case from_hex acc xs of None \<Rightarrow> None | Some a \<Rightarrow> from_hex a ys)"
  by (induction xs arbitrary: acc) (auto split: option.splits)

lemma length_to_hex: "length (to_hex k n) = k"
  by (induction k arbitrary: n) auto

lemma from_hex_to_hex: "from_hex acc (to_hex k n) = Some (acc * 16 ^ k + n mod 16 ^ k)"
proof (induction k arbitrary: n acc)
  case 0
  then show ?case by simp
next
  case (Suc k)
  have "n mod (16 * 16 ^ k) = 16 * ((n div 16) mod 16 ^ k) + n mod 16"
    by (simp add: mod_mult2_eq)
  then show ?case
    by (simp add: from_hex_append Suc hex_val_hex_digit algebra_simps)
qed

lemma ObjectId_oid_str: "ObjectId (oid_str k) = Inr k"
proof -
  have "unat k < 2 ^ 96"
    using unsigned_less [of k] by simp
  then have "unat k mod 16 ^ 24 = unat k"
    by simp
  then show ?thesis
    by (simp add: ObjectId_def oid_str_def length_to_hex from_hex_to_hex)
qed

lemma ObjectId_error: "ObjectId s = Inl e \<Longrightarrow> e = InvalidId s"
  by (auto simp: ObjectId_def split: if_splits option.splits)

section \<open>The driver operations\<close>

lemma map_of_set_fields: "map_of (set_fields upd d) = map_of d ++ map_of upd"
  unfolding set_fields_def by (induction upd) (auto simp: update_conv' fun_eq_iff map_add_def)

lemma update_one_no_match:
  "find_one key ds = None \<Longrightarrow>
     update_one key upd ds = Inr (ds, \<lparr>matched_count = 0, modified_count = 0\<rparr>)"
  by (induction ds) (auto simp: find_one_def split: if_splits)

lemma delete_one_no_match: "find_one key ds = None \<Longrightarrow> delete_one key ds = (ds, 0)"
  by (induction ds) (auto simp: find_one_def split: if_splits)

lemma update_one_match:
  assumes "update_one key upd ds = Inr (ds', r)" and "find_one key ds = Some doc"
  shows "find_one key ds' = Some (set_fields upd doc) \<and> matched_count r = 1
         \<and> modified_count r = (if set_fields upd doc = doc then 0 else 1)"
  using assms
proof (induction ds arbitrary: ds')
  case Nil
  then show ?case by (simp add: find_one_def)
next
  case (Cons d ds)
  show ?case
  proof (cases "has_id key d")
    case True
    with Cons.prems have ok: "map_of upd ''_id'' = None \<or> map_of upd ''_id'' = Some key"
      and res: "ds' = set_fields upd d # ds" "doc = d"
        "r = \<lparr>matched_count = 1, modified_count = (if set_fields upd d = d then 0 else 1)\<rparr>"
      by (auto simp: find_one_def split: if_splits)
    from True ok have "has_id key (set_fields upd d)"
      by (auto simp: has_id_def map_of_set_fields map_add_def)
    with res show ?thesis by (simp add: find_one_def)
  next
    case False
    with Cons.prems obtain es where es: "update_one key upd ds = Inr (es, r)" "ds' = d # es"
      by (auto split: sum.splits)
    from False Cons.prems have "find_one key ds = Some doc" by (simp add: find_one_def)
    from Cons.IH [OF es(1) this] False es(2) show ?thesis by (simp add: find_one_def)
  qed
qed

lemma update_one_succeeds:
  "map_of upd ''_id'' = None \<Longrightarrow> \<exists>ds' r. update_one key upd ds = Inr (ds', r)"
  by (induction ds) auto

lemma find_one_append_new:
  "\<not> list_ex (has_id key) coll \<Longrightarrow> has_id key doc \<Longrightarrow> find_one key (coll @ [doc]) = Some doc"
  by (induction coll) (auto simp: find_one_def)

lemma insert_one_result:
  assumes "insert_one fresh document coll = Inr (coll', key)"
  shows "\<exists>stored. coll' = coll @ [stored] \<and> find_one key coll' = Some stored
           \<and> map_of stored ''_id'' = Some key
           \<and> key = (case map_of document ''_id'' of None \<Rightarrow> VOid fresh | Some v \<Rightarrow> v)
           \<and> (\<forall>f. f \<noteq> ''_id'' \<longrightarrow> map_of stored f = map_of document f)"
proof (cases "map_of document ''_id''")
  case None
  with assms have c: "coll' = coll @ [document @ [(''_id'', VOid fresh)]]" "key = VOid fresh"
    and n: "\<not> list_ex (has_id (VOid fresh)) coll"
    by (auto simp: insert_one_def split: if_splits)
  from None have h: "has_id (VOid fresh) (document @ [(''_id'', VOid fresh)])"
    by (simp add: has_id_def map_add_def)
  from find_one_append_new [OF n h] c None show ?thesis
    by (auto simp: map_add_def split: option.splits)
next
  case (Some v)
  with assms have c: "coll' = coll @ [document]" "key = v"
    and n: "\<not> list_ex (has_id v) coll"
    by (auto simp: insert_one_def split: if_splits)
  from Some have h: "has_id v document"
    by (simp add: has_id_def)
  from find_one_append_new [OF n h] c Some show ?thesis
    by auto
qed

lemma store_db_same: "db s = Some d \<Longrightarrow> s\<lparr>db := Some d\<rparr> = s"
  by (cases s) simp

text \<open>
  A well-formed identifier that matches no record: \<open>update_document\<close> and
  \<open>delete_document\<close> return \<open>False\<close> and leave the store as it was.
\<close>

lemma update_delete_unknown_identifier:
  assumes "db s = Some d" and "ObjectId ident = Inr k" and "find_one (VOid k) (d c) = None"
  shows "update_document now s c ident upd = (Inr False, s)
         \<and> delete_document s c ident = (Inr False, s)"
  using assms
  by (simp add: update_document_def delete_document_def update_one_no_match
      delete_one_no_match store_db_same)

section \<open>Float rounding\<close>

lemma bit_length_bounds:
  "0 < n \<Longrightarrow> \<exists>b. bit_length n = Suc b \<and> 2 ^ b \<le> n \<and> n < 2 ^ Suc b"
proof (induction n rule: bit_length.induct)
  case (1 n)
  show ?case
  proof (cases "n = 1")
    case True
    then show ?thesis by (simp add: bit_length.simps)
  next
    case False
    with "1.prems" have pos: "0 < n div 2" by simp
    from "1.prems" have "\<not> n \<le> 0" by simp
    from "1.IH" [OF this pos] obtain b where b: "bit_length (n div 2) = Suc b"
      "2 ^ b \<le> n div 2" "n div 2 < 2 ^ Suc b"
      by blast
    have "bit_length n = Suc (Suc b)"
      using "1.prems" b(1) by (subst bit_length.simps) simp
    moreover have "2 ^ Suc b \<le> n" using b(2) by simp
    moreover have "n < 2 ^ Suc (Suc b)" using b(3) by simp
    ultimately show ?thesis by blast
  qed
qed

lemma pow2_powi: "pow2 e = 2 powi e"
  by (simp add: pow2_def power_int_def inverse_eq_divide power_one_over)

lemma pow2_pos: "0 < pow2 e"
  by (simp add: pow2_powi)

lemma pow2_mono: "k \<le> l \<Longrightarrow> pow2 k \<le> pow2 l"
  by (simp add: pow2_powi power_int_increasing)

lemma pow2_Suc: "pow2 (k + 1) = 2 * pow2 k"
  by (simp add: pow2_powi power_int_add)

lemma floor_log2_bounds:
  assumes "0 < a"
  shows "pow2 (floor_log2 a) \<le> a \<and> a < pow2 (floor_log2 a + 1)"
proof -
  obtain p q where pq: "quotient_of a = (p, q)" by (cases "quotient_of a")
  then have q: "0 < q" and a: "a = of_int p / of_int q"
    using quotient_of_denom_pos quotient_of_div by blast+
  with assms have p: "0 < p"
    by (simp add: zero_less_divide_iff)
  from bit_length_bounds [OF p] obtain bp where bp: "bit_length p = Suc bp" "2 ^ bp \<le> p"
    "p < 2 ^ Suc bp" by blast
  from bit_length_bounds [OF q] obtain bq where bq: "bit_length q = Suc bq" "2 ^ bq \<le> q"
    "q < 2 ^ Suc bq" by blast
  define k where "k = int bp - int bq"
  have fl: "floor_log2 a = (if pow2 k \<le> a then k else k - 1)"
    by (simp add: floor_log2_def pq bp(1) bq(1) k_def)
  have P: "(2::rat) ^ bp \<le> of_int p" "of_int p < (2::rat) ^ Suc bp"
    using bp(2,3) by (metis of_int_le_iff of_int_numeral of_int_power, metis of_int_less_iff of_int_numeral of_int_power)
  have Q: "(2::rat) ^ bq \<le> of_int q" "of_int q < (2::rat) ^ Suc bq"
    using bq(2,3) by (metis of_int_le_iff of_int_numeral of_int_power, metis of_int_less_iff of_int_numeral of_int_power)
  have qpos: "(0::rat) < of_int q" using q by simp
  have k1: "pow2 (k + 1) = 2 ^ Suc bp / 2 ^ bq"
    by (simp add: pow2_powi k_def power_int_diff power_int_add)
  have km: "pow2 (k - 1) = 2 ^ bp / 2 ^ Suc bq"
    by (simp add: pow2_powi k_def power_int_diff)
  have up: "a < pow2 (k + 1)"
  proof -
    have "a < 2 ^ Suc bp / of_int q"
      unfolding a using P(2) qpos by (simp add: divide_strict_right_mono)
    also have "\<dots> \<le> 2 ^ Suc bp / 2 ^ bq"
      using Q(1) by (simp add: frac_le)
    finally show ?thesis by (simp add: k1)
  qed
  have lo: "pow2 (k - 1) \<le> a"
  proof -
    have "(2::rat) ^ bp / 2 ^ Suc bq \<le> of_int p / 2 ^ Suc bq"
      using P(1) by (simp add: divide_right_mono)
    also have "\<dots> \<le> of_int p / of_int q"
      using Q(2) qpos p by (simp add: frac_le)
    finally show ?thesis by (simp add: km a)
  qed
  show ?thesis
  proof (cases "pow2 k \<le> a")
    case True
    with fl up show ?thesis by simp
  next
    case False
    with fl lo show ?thesis by simp
  qed
qed

lemma floor_log2_eqI:
  assumes "pow2 k \<le> a" and "a < pow2 (k + 1)"
  shows "floor_log2 a = k"
proof -
  have "0 < a" using assms(1) pow2_pos [of k] by simp
  from floor_log2_bounds [OF this] have b: "pow2 (floor_log2 a) \<le> a" "a < pow2 (floor_log2 a + 1)"
    by simp_all
  have "\<not> floor_log2 a < k"
  proof
    assume "floor_log2 a < k"
    then have "pow2 (floor_log2 a + 1) \<le> pow2 k" by (simp add: pow2_mono)
    with b(2) assms(1) show False by simp
  qed
  moreover have "\<not> k < floor_log2 a"
  proof
    assume "k < floor_log2 a"
    then have "pow2 (k + 1) \<le> pow2 (floor_log2 a)" by (simp add: pow2_mono)
    with b(1) assms(2) show False by simp
  qed
  ultimately show ?thesis by simp
qed

lemma round_half_even_eqI:
  assumes "of_int m - 1 / 2 < x" and "x < of_int m + 1 / 2"
  shows "round_half_even x = m"
proof -
  have "\<lfloor>x\<rfloor> = m \<or> \<lfloor>x\<rfloor> = m - 1"
    using assms by (simp add: floor_eq_iff) linarith
  then show ?thesis
    using assms by (auto simp: round_half_even_def Let_def) 
qed

lemma round_half_even_tie:
  assumes "x = of_int n + 1 / 2"
  shows "round_half_even x = (if even n then n else n + 1)"
proof -
  have "\<lfloor>x\<rfloor> = n"
    using assms by (simp add: floor_eq_iff)
  then show ?thesis
    using assms by (simp add: round_half_even_def Let_def)
qed


lemma binary64_eqI:
  assumes "pow2 k \<le> x" and "x < pow2 (k + 1)" and "e = max (k - 52) (- 1074)"
    and "round_half_even (x / pow2 e) = m" and "of_int m * pow2 e < pow2 1024"
  shows "binary64 x = Finite (of_int m * pow2 e)"
proof -
  have pos: "0 < x" using assms(1) pow2_pos [of k] by simp
  have "floor_log2 x = k" using assms(1,2) by (rule floor_log2_eqI)
  with pos assms(3,4,5) show ?thesis
    by (simp add: binary64_def Let_def)
qed

lemma binary64_minus: "binary64 (- x) = float_neg (binary64 x)"
  by (simp add: binary64_def float_neg_def Let_def)


subsection \<open>The values the two example carts go through\<close>

text \<open>
  Each binary64 value below is checked against \<open>binary64_eqI\<close>: the binade of the
  argument, the rounded significand and the exponent are given, and what is left is
  arithmetic on numerals.
\<close>

lemma binary64_value_1: "binary64 (133 / 100) = Finite (748723438050345 / 562949953421312)"
  by (rule binary64_eqI [where k = "0" and m = 5989787504402760 and e = "-52", THEN trans])
    (simp_all add: pow2_def round_half_even_eqI)

lemma binary64_value_2: "binary64 (3) = Finite (3)"
  by (rule binary64_eqI [where k = "1" and m = 6755399441055744 and e = "-51", THEN trans])
    (simp_all add: pow2_def round_half_even_eqI)

lemma binary64_value_3: "binary64 (15 / 2) = Finite (15 / 2)"
  by (rule binary64_eqI [where k = "2" and m = 8444249301319680 and e = "-50", THEN trans])
    (simp_all add: pow2_def round_half_even_eqI)

lemma binary64_value_4: "binary64 (2) = Finite (2)"
  by (rule binary64_eqI [where k = "1" and m = 4503599627370496 and e = "-51", THEN trans])
    (simp_all add: pow2_def round_half_even_eqI)

lemma binary64_value_5: "binary64 (748723438050345 / 281474976710656) = Finite (748723438050345 / 281474976710656)"
  by (rule binary64_eqI [where k = "1" and m = 5989787504402760 and e = "-51", THEN trans])
    (simp_all add: pow2_def round_half_even_eqI)

lemma binary64_value_6: "binary64 (2859785763380265 / 281474976710656) = Finite (2859785763380265 / 281474976710656)"
  by (rule binary64_eqI [where k = "3" and m = 5719571526760530 and e = "-49", THEN trans])
    (simp_all add: pow2_def round_half_even_eqI)

lemma binary64_value_7: "binary64 (2 / 25) = Finite (5764607523034235 / 72057594037927936)"
  by (rule binary64_eqI [where k = "-4" and m = 5764607523034235 and e = "-56", THEN trans])
    (simp_all add: pow2_def round_half_even_eqI)

lemma binary64_value_8: "binary64 (16485542525848078294342918372275 / 20282409603651670423947251286016) = Finite (7321051554253479 / 9007199254740992)"
  by (rule binary64_eqI [where k = "-1" and m = 7321051554253479 and e = "-53", THEN trans])
    (simp_all add: pow2_def round_half_even_eqI)

lemma binary64_value_9: "binary64 (81 / 100) = Finite (1823957849085051 / 2251799813685248)"
  by (rule binary64_eqI [where k = "-1" and m = 7295831396340204 and e = "-53", THEN trans])
    (simp_all add: pow2_def round_half_even_eqI)

lemma binary64_value_10: "binary64 (24702243956127171 / 2251799813685248) = Finite (6175560989031793 / 562949953421312)"
  by (rule binary64_eqI [where k = "3" and m = 6175560989031793 and e = "-49", THEN trans])
    (simp_all add: pow2_def round_half_even_eqI)

lemma binary64_value_11: "binary64 (1097 / 100) = Finite (6175560989031793 / 562949953421312)"
  by (rule binary64_eqI [where k = "3" and m = 6175560989031793 and e = "-49", THEN trans])
    (simp_all add: pow2_def round_half_even_eqI)

lemma binary64_value_12: "binary64 (1) = Finite (1)"
  by (rule binary64_eqI [where k = "0" and m = 4503599627370496 and e = "-52", THEN trans])
    (simp_all add: pow2_def round_half_even_eqI)

lemma binary64_value_13: "binary64 (25 / 16) = Finite (25 / 16)"
  by (rule binary64_eqI [where k = "0" and m = 7036874417766400 and e = "-52", THEN trans])
    (simp_all add: pow2_def round_half_even_eqI)

lemma binary64_value_14: "binary64 (144115188075855875 / 1152921504606846976) = Finite (1 / 8)"
  by (rule binary64_eqI [where k = "-3" and m = 4503599627370496 and e = "-55", THEN trans])
    (simp_all add: pow2_def round_half_even_eqI)

lemma binary64_value_15: "binary64 (3 / 25) = Finite (1080863910568919 / 9007199254740992)"
  by (rule binary64_eqI [where k = "-4" and m = 8646911284551352 and e = "-56", THEN trans])
    (simp_all add: pow2_def round_half_even_eqI)

lemma binary64_value_16_tie: "round_half_even (15154612746101719 / 2) = 7577306373050860"
  using round_half_even_tie [of "15154612746101719 / 2" 7577306373050859] by simp

lemma binary64_value_16: "binary64 (15154612746101719 / 9007199254740992) = Finite (1894326593262715 / 1125899906842624)"
  by (rule binary64_eqI [where k = "0" and m = 7577306373050860 and e = "-52", THEN trans])
    (simp_all add: pow2_def binary64_value_16_tie)

lemma binary64_value_17: "binary64 (42 / 25) = Finite (7566047373982433 / 4503599627370496)"
  by (rule binary64_eqI [where k = "0" and m = 7566047373982433 and e = "-52", THEN trans])
    (simp_all add: pow2_def round_half_even_eqI)

lemma binary64_value_18: "binary64 (1 / 10) = Finite (3602879701896397 / 36028797018963968)"
  by (rule binary64_eqI [where k = "-4" and m = 7205759403792794 and e = "-56", THEN trans])
    (simp_all add: pow2_def round_half_even_eqI)

lemma binary64_value_19: "binary64 (1 / 5) = Finite (3602879701896397 / 18014398509481984)"
  by (rule binary64_eqI [where k = "-3" and m = 7205759403792794 and e = "-55", THEN trans])
    (simp_all add: pow2_def round_half_even_eqI)

lemma binary64_value_20: "binary64 (3 / 10) = Finite (5404319552844595 / 18014398509481984)"
  by (rule binary64_eqI [where k = "-2" and m = 5404319552844595 and e = "-54", THEN trans])
    (simp_all add: pow2_def round_half_even_eqI)

lemma binary64_value_21: "binary64 (3602879701896397 / 36028797018963968) = Finite (3602879701896397 / 36028797018963968)"
  by (rule binary64_eqI [where k = "-4" and m = 7205759403792794 and e = "-56", THEN trans])
    (simp_all add: pow2_def round_half_even_eqI)

lemma binary64_value_22: "binary64 (3602879701896397 / 18014398509481984) = Finite (3602879701896397 / 18014398509481984)"
  by (rule binary64_eqI [where k = "-3" and m = 7205759403792794 and e = "-55", THEN trans])
    (simp_all add: pow2_def round_half_even_eqI)

lemma binary64_value_23: "binary64 (5404319552844595 / 18014398509481984) = Finite (5404319552844595 / 18014398509481984)"
  by (rule binary64_eqI [where k = "-2" and m = 5404319552844595 and e = "-54", THEN trans])
    (simp_all add: pow2_def round_half_even_eqI)

lemma binary64_value_24_tie: "round_half_even (10808639105689191 / 2) = 5404319552844596"
  using round_half_even_tie [of "10808639105689191 / 2" 5404319552844595] by simp

lemma binary64_value_24: "binary64 (10808639105689191 / 36028797018963968) = Finite (1351079888211149 / 4503599627370496)"
  by (rule binary64_eqI [where k = "-2" and m = 5404319552844596 and e = "-54", THEN trans])
    (simp_all add: pow2_def binary64_value_24_tie)

lemma binary64_value_25_tie: "round_half_even (10808639105689191 / 2) = 5404319552844596"
  using round_half_even_tie [of "10808639105689191 / 2" 5404319552844595] by simp

lemma binary64_value_25: "binary64 (10808639105689191 / 18014398509481984) = Finite (1351079888211149 / 2251799813685248)"
  by (rule binary64_eqI [where k = "-1" and m = 5404319552844596 and e = "-53", THEN trans])
    (simp_all add: pow2_def binary64_value_25_tie)

lemma binary64_value_26: "binary64 (1801439850948199 / 18014398509481984) = Finite (1801439850948199 / 18014398509481984)"
  by (rule binary64_eqI [where k = "-4" and m = 7205759403792796 and e = "-56", THEN trans])
    (simp_all add: pow2_def round_half_even_eqI)

lemma binary64_value_27: "binary64 (1 / 36028797018963968) = Finite (1 / 36028797018963968)"
  by (rule binary64_eqI [where k = "-55" and m = 4503599627370496 and e = "-107", THEN trans])
    (simp_all add: pow2_def round_half_even_eqI)

lemma binary64_value_28: "binary64 (1351079888211149 / 4503599627370496) = Finite (1351079888211149 / 4503599627370496)"
  by (rule binary64_eqI [where k = "-2" and m = 5404319552844596 and e = "-54", THEN trans])
    (simp_all add: pow2_def round_half_even_eqI)

lemma binary64_value_29: "binary64 (1 / 18014398509481984) = Finite (1 / 18014398509481984)"
  by (rule binary64_eqI [where k = "-54" and m = 4503599627370496 and e = "-106", THEN trans])
    (simp_all add: pow2_def round_half_even_eqI)

lemma binary64_value_30: "binary64 (3 / 36028797018963968) = Finite (3 / 36028797018963968)"
  by (rule binary64_eqI [where k = "-54" and m = 6755399441055744 and e = "-106", THEN trans])
    (simp_all add: pow2_def round_half_even_eqI)

lemma binary64_value_31: "binary64 (21617278211378381 / 36028797018963968) = Finite (5404319552844595 / 9007199254740992)"
  by (rule binary64_eqI [where k = "-1" and m = 5404319552844595 and e = "-53", THEN trans])
    (simp_all add: pow2_def round_half_even_eqI)

lemma binary64_value_32: "binary64 (3 / 5) = Finite (5404319552844595 / 9007199254740992)"
  by (rule binary64_eqI [where k = "-1" and m = 5404319552844595 and e = "-53", THEN trans])
    (simp_all add: pow2_def round_half_even_eqI)

lemma binary64_value_33: "binary64 (254 / 25) = Finite (2859785763380265 / 281474976710656)"
  by (rule binary64_eqI [where k = "3" and m = 5719571526760530 and e = "-49", THEN trans])
    (simp_all add: pow2_def round_half_even_eqI)

lemma binary64_value_34: "binary64 (13 / 100) = Finite (1170935903116329 / 9007199254740992)"
  by (rule binary64_eqI [where k = "-3" and m = 4683743612465316 and e = "-55", THEN trans])
    (simp_all add: pow2_def round_half_even_eqI)

lemma round_value_1: "round_half_even (183026288856336975 / 2251799813685248) = 81"
  by (rule round_half_even_eqI) simp_all

lemma round_value_2: "round_half_even (154389024725794825 / 140737488355328) = 1097"
  by (rule round_half_even_eqI) simp_all

lemma round_value_3: "round_half_even (25 / 2) = 12"
  using round_half_even_tie [of "25 / 2" 12] by simp

lemma round_value_4: "round_half_even (47358164831567875 / 281474976710656) = 168"
  by (rule round_half_even_eqI) simp_all

lemmas float_values =
  binary64_value_1 binary64_value_2 binary64_value_3 binary64_value_4
  binary64_value_5 binary64_value_6 binary64_value_7 binary64_value_8
  binary64_value_9 binary64_value_10 binary64_value_11 binary64_value_12
  binary64_value_13 binary64_value_14 binary64_value_15 binary64_value_16
  binary64_value_17 binary64_value_18 binary64_value_19 binary64_value_20
  binary64_value_21 binary64_value_22 binary64_value_23 binary64_value_24
  binary64_value_25 binary64_value_26 binary64_value_27 binary64_value_28
  binary64_value_29 binary64_value_30 binary64_value_31 binary64_value_32
  binary64_value_33 binary64_value_34
  round_value_1 round_value_2 round_value_3 round_value_4

lemma binary64_0: "binary64 0 = Finite 0"
  by (simp add: binary64_def)



text \<open>
  On the prices 0.1, 0.2 and 0.3 the compensated sum is the \<open>float\<close> nearest to 0.6
  and the plain sum is the next \<open>float\<close> above it.
\<close>

lemma three_sum:
  "sum_lines True (items three_cart) = Inr (binary64 (6 / 10))"
  "sum_lines False (items three_cart) = Inr (Finite (1351079888211149 / 2251799813685248))"
  "binary64 (6 / 10) \<noteq> Finite (1351079888211149 / 2251799813685248)"
  by (simp_all add: sum_lines_def line_total_def three_cart_def float_of_int_def float_mul_def
      float_add_def float_sub_def float_neg_def abs_ge_def binary64_minus binary64_0 Let_def
      float_values)




lemma tie_tax: "py_round2 (Finite (1 / 8)) = Inr (binary64 (12 / 100))"
  by (simp add: py_round2_def float_values)

lemma tie_total: "py_round2 (float_add (Finite (25 / 16)) (binary64 (12 / 100))) = Inr (binary64 (168 / 100))"
  by (simp add: py_round2_def float_add_def float_values)



lemma pair_of_fst: "fst x = a \<Longrightarrow> x = (a, snd x)"
  by auto



section \<open>Claims\<close>

text \<open>
  C6. A syntactically invalid identifier, one that the codec refuses, makes
  \<open>get_document_by_id\<close> return \<open>None\<close> on an available store: the decode failure is
  caught and is the same answer as a missing record.
\<close>

theorem get_document_by_id_malformed_absent:
  assumes "ObjectId ident = Inl e" and "db s = Some d"
  shows "get_document_by_id rt s c ident = Inr None"
  using assms by (simp add: get_document_by_id_def)

theorem get_document_by_id_malformed_absent_witness:
  "ObjectId ''not-an-id'' = Inl (InvalidId ''not-an-id'')
   \<and> db empty_store = Some (the (db empty_store))
   \<and> get_document_by_id example_runtime empty_store ''fooditem'' ''not-an-id'' = Inr None"
proof -
  have h1: "ObjectId ''not-an-id'' = Inl (InvalidId ''not-an-id'')"
    by (simp add: ObjectId_def)
  have h2: "db empty_store = Some (the (db empty_store))"
    by (simp add: empty_store_def)
  show ?thesis
    using h1 h2 get_document_by_id_malformed_absent [OF h1 h2, of example_runtime "''fooditem''"]
    by simp
qed

text \<open>
  C9. For a syntactically malformed identifier \<open>update_document\<close> and
  \<open>delete_document\<close> raise the codec's InvalidId and leave the store as it was, where
  \<open>get_document_by_id\<close> answers \<open>None\<close>.
\<close>

theorem update_delete_malformed_raise:
  assumes "ObjectId ident = Inl e" and "db s = Some d"
  shows "update_document now s c ident upd = (Inl (InvalidId ident), s)
         \<and> delete_document s c ident = (Inl (InvalidId ident), s)
         \<and> get_document_by_id rt s c ident = Inr None"
  using assms ObjectId_error [OF assms(1)]
  by (simp add: update_document_def delete_document_def get_document_by_id_def)

theorem update_delete_malformed_raise_witness:
  "ObjectId ''12345'' = Inl (InvalidId ''12345'')
   \<and> db category_store = Some (the (db category_store))
   \<and> update_document 9 category_store ''category'' ''12345'' [(''name'', VStr ''Pasta'')]
       = (Inl (InvalidId ''12345''), category_store)
   \<and> delete_document category_store ''category'' ''12345''
       = (Inl (InvalidId ''12345''), category_store)
   \<and> get_document_by_id example_runtime category_store ''category'' ''12345'' = Inr None"
proof -
  have h1: "ObjectId ''12345'' = Inl (InvalidId ''12345'')"
    by (simp add: ObjectId_def)
  have h2: "db category_store = Some (the (db category_store))"
    by (simp add: category_store_def)
  show ?thesis
    using h1 h2
      update_delete_malformed_raise [OF h1 h2, of 9 "''category''" "[(''name'', VStr ''Pasta'')]"
        example_runtime]
    by simp
qed

text \<open>
  C7, at an input where the code departs from it. The identifier \<open>nope\<close> matches no
  stored record, and \<open>update_document\<close> and \<open>delete_document\<close> raise InvalidId
  instead of returning \<open>False\<close>: they decode the identifier outside any \<open>try\<close>,
  where \<open>get_document_by_id\<close> catches the failure.
\<close>

theorem update_document_malformed_identifier_raises:
  "find_one (VStr ''nope'') (the (db empty_store) ''category'') = None
   \<and> fst (update_document 0 empty_store ''category'' ''nope'' []) = Inl (InvalidId ''nope'')
   \<and> fst (update_document 0 empty_store ''category'' ''nope'' []) \<noteq> Inr False
   \<and> fst (delete_document empty_store ''category'' ''nope'') = Inl (InvalidId ''nope'')
   \<and> get_document_by_id example_runtime empty_store ''category'' ''nope'' = Inr None"
  by (simp add: update_document_def delete_document_def get_document_by_id_def empty_store_def
      ObjectId_def find_one_def)

text \<open>
  C3, at an input where the code departs from it. The category \<open>pizza\<close> exists; an
  update with the values it already has, made at the instant its \<open>updated_at\<close>
  already records, changes nothing, so \<open>modified_count\<close> is 0 and
  \<open>update_document\<close> returns \<open>False\<close>.
\<close>

theorem update_document_same_instant_returns_false:
  "find_one (VOid 1) (the (db category_store) ''category'') = Some pizza
   \<and> fst (update_document 5 category_store ''category'' (oid_str 1) [(''name'', VStr ''Pizza'')])
       = Inr False"
  by (simp add: update_document_def category_store_def pizza_def ObjectId_oid_str find_one_def
      has_id_def set_fields_def)

text \<open>
  C2, at an input where the code departs from it. The request model types \<open>status\<close> as
  a plain string, so \<open>bogus\<close>, outside the five values of the Order schema, passes
  \<open>update_order_status\<close> and is written to the stored order.
\<close>

theorem update_order_status_accepts_any_string:
  "fst (update_order_status 9 order_store (oid_str 3) \<lparr>status = ''bogus''\<rparr>)
     = Inr [(''updated'', VBool True)]
   \<and> map_of (the (find_one (VOid 3)
        (the (db (snd (update_order_status 9 order_store (oid_str 3) \<lparr>status = ''bogus''\<rparr>)))
           ''order''))) ''status'' = Some (VStr ''bogus'')"
  by (simp add: update_order_status_def update_document_def order_store_def order_doc_def
      ObjectId_oid_str find_one_def has_id_def set_fields_def)

text \<open>
  C5, as stated, fails: the new stamp is the clock reading and is compared with nothing.
  The category \<open>pizza\<close> carries \<open>updated_at\<close> 5; an update made when the clock reads
  2 goes through and leaves \<open>updated_at\<close> 2, earlier than before.
\<close>

theorem update_document_clock_back_counterexample:
  "map_of pizza ''updated_at'' = Some (VTime 5)
   \<and> find_one (VOid 1) (the (db category_store) ''category'') = Some pizza
   \<and> fst (update_document 2 category_store ''category'' (oid_str 1) [(''name'', VStr ''Pasta'')])
       = Inr True
   \<and> map_of (the (find_one (VOid 1)
        (the (db (snd (update_document 2 category_store ''category'' (oid_str 1)
            [(''name'', VStr ''Pasta'')]))) ''category'')))
        ''updated_at'' = Some (VTime 2)
   \<and> \<not> (5 :: int) \<le> 2"
  by (simp add: update_document_def category_store_def pizza_def ObjectId_oid_str find_one_def
      has_id_def set_fields_def)

text \<open>
  C5, amended. For every stored record and every update payload, after every update
  that goes through the record carries the clock reading of the update as
  \<open>updated_at\<close>, whatever the payload said about \<open>updated_at\<close> and whether or
  not any other field changed.
\<close>

theorem update_document_stamps_updated_at:
  assumes "db s = Some d" and "ObjectId ident = Inr k" and "find_one (VOid k) (d c) = Some doc"
    and "update_document now s c ident upd = (Inr b, s')"
  shows "\<exists>d' doc'. db s' = Some d' \<and> find_one (VOid k) (d' c) = Some doc'
           \<and> map_of doc' ''updated_at'' = Some (VTime now)"
proof -
  let ?upd = "AList.update ''updated_at'' (VTime now) upd"
  from assms obtain coll r where r: "update_one (VOid k) ?upd (d c) = Inr (coll, r)"
    and s': "s' = s\<lparr>db := Some (d(c := coll))\<rparr>"
    by (auto simp: update_document_def split: sum.splits)
  from update_one_match [OF r assms(3)]
  have f: "find_one (VOid k) coll = Some (set_fields ?upd doc)" by simp
  have "map_of (set_fields ?upd doc) ''updated_at'' = Some (VTime now)"
    by (simp add: map_of_set_fields update_conv')
  with f s' show ?thesis by simp
qed

theorem update_document_stamps_updated_at_witness:
  "db category_store = Some (the (db category_store))
   \<and> ObjectId (oid_str 1) = Inr 1
   \<and> find_one (VOid 1) (the (db category_store) ''category'') = Some pizza
   \<and> update_document 9 category_store ''category'' (oid_str 1)
        [(''updated_at'', VTime 0), (''name'', VStr ''Pizza'')]
       = (Inr True, snd (update_document 9 category_store ''category'' (oid_str 1)
            [(''updated_at'', VTime 0), (''name'', VStr ''Pizza'')]))
   \<and> map_of (the (find_one (VOid 1)
        (the (db (snd (update_document 9 category_store ''category'' (oid_str 1)
            [(''updated_at'', VTime 0), (''name'', VStr ''Pizza'')]))) ''category'')))
        ''updated_at'' = Some (VTime 9)"
proof -
  let ?upd = "[(''updated_at'', VTime 0), (''name'', VStr ''Pizza'')]"
  let ?r = "update_document 9 category_store ''category'' (oid_str 1) ?upd"
  have h1: "db category_store = Some (the (db category_store))"
    by (simp add: category_store_def)
  have h2: "ObjectId (oid_str 1) = Inr 1"
    by (rule ObjectId_oid_str)
  have h3: "find_one (VOid 1) (the (db category_store) ''category'') = Some pizza"
    by (simp add: category_store_def pizza_def find_one_def has_id_def)
  have "fst ?r = Inr True"
    by (simp add: update_document_def category_store_def pizza_def ObjectId_oid_str
        find_one_def has_id_def set_fields_def)
  then have h4: "?r = (Inr True, snd ?r)"
    by (rule pair_of_fst)
  from update_document_stamps_updated_at [OF h1 h2 h3 h4]
  obtain d' doc' where "db (snd ?r) = Some d'" "find_one (VOid 1) (d' ''category'') = Some doc'"
    "map_of doc' ''updated_at'' = Some (VTime 9)"
    by blast
  with h1 h2 h3 h4 show ?thesis by simp
qed

text \<open>
  C8. For every payload, which brings no \<open>_id\<close> of its own (the store assigns the
  identifier; a native key as \<open>_id\<close> is covered too): creation succeeds when the
  generated key is new to the collection, and whenever \<open>create_document\<close> returns an
  identifier, the identifier decodes to the key the record is stored under, and
  \<open>get_document_by_id\<close> on it returns that record, the payload with both stamps at
  the current instant, with \<open>_id\<close> as the identifier.
\<close>

theorem create_then_find_by_id:
  assumes "db s = Some d"
    and "map_of data ''_id'' = None \<or> (\<exists>k. map_of data ''_id'' = Some (VOid k))"
  shows "(map_of data ''_id'' = None \<and> \<not> list_ex (has_id (VOid fresh)) (d c) \<longrightarrow>
           (\<exists>s'. create_document rt now fresh s c data = (Inr (oid_str fresh), s')))
     \<and> (\<forall>ident s'. create_document rt now fresh s c data = (Inr ident, s') \<longrightarrow>
          (\<exists>k d' doc. ObjectId ident = Inr k \<and> db s' = Some d'
             \<and> find_one (VOid k) (d' c) = Some doc
             \<and> map_of doc ''created_at'' = Some (VTime now)
             \<and> map_of doc ''updated_at'' = Some (VTime now)
             \<and> (\<forall>f. f \<notin> {''_id'', ''created_at'', ''updated_at''} \<longrightarrow> map_of doc f = map_of data f)
             \<and> get_document_by_id rt s' c ident
                 = Inr (Some (AList.update ''_id'' (VStr ident) doc))))"
proof (intro conjI impI allI)
  let ?p = "AList.update ''updated_at'' (VTime now) (AList.update ''created_at'' (VTime now) data)"
  assume "map_of data ''_id'' = None \<and> \<not> list_ex (has_id (VOid fresh)) (d c)"
  then have "map_of ?p ''_id'' = None" "\<not> list_ex (has_id (VOid fresh)) (d c)"
    by (simp_all add: update_conv')
  with assms(1) show "\<exists>s'. create_document rt now fresh s c data = (Inr (oid_str fresh), s')"
    by (simp add: create_document_def insert_one_def py_str_def)
next
  fix ident s'
  let ?p = "AList.update ''updated_at'' (VTime now) (AList.update ''created_at'' (VTime now) data)"
  assume "create_document rt now fresh s c data = (Inr ident, s')"
  with assms(1) obtain coll key where ins: "insert_one fresh ?p (d c) = Inr (coll, key)"
    and ident: "ident = py_str rt key" and s': "s' = s\<lparr>db := Some (d(c := coll))\<rparr>"
    by (auto simp: create_document_def Let_def split: sum.splits)
  from insert_one_result [OF ins] obtain stored where st: "find_one key coll = Some stored"
    "map_of stored ''_id'' = Some key"
    "key = (case map_of ?p ''_id'' of None \<Rightarrow> VOid fresh | Some v \<Rightarrow> v)"
    "\<forall>f. f \<noteq> ''_id'' \<longrightarrow> map_of stored f = map_of ?p f"
    by blast
  have pid: "map_of ?p ''_id'' = map_of data ''_id''"
    by (simp add: update_conv')
  from assms(2) st(3) pid obtain k where k: "key = VOid k"
    by (auto split: option.splits)
  with ident have dec: "ObjectId ident = Inr k"
    by (simp add: py_str_def ObjectId_oid_str)
  from st(2) have ne: "stored \<noteq> []" by auto
  have "get_document_by_id rt s' c ident = Inr (Some (AList.update ''_id'' (VStr ident) stored))"
    using dec s' st(1,2) k ne ident
    by (simp add: get_document_by_id_def serialize_doc_def)
  moreover have "map_of stored ''created_at'' = Some (VTime now)"
    "map_of stored ''updated_at'' = Some (VTime now)"
    "\<forall>f. f \<notin> {''_id'', ''created_at'', ''updated_at''} \<longrightarrow> map_of stored f = map_of data f"
    using st(4) by (simp_all add: update_conv')
  ultimately show "\<exists>k d' doc. ObjectId ident = Inr k \<and> db s' = Some d'
             \<and> find_one (VOid k) (d' c) = Some doc
             \<and> map_of doc ''created_at'' = Some (VTime now)
             \<and> map_of doc ''updated_at'' = Some (VTime now)
             \<and> (\<forall>f. f \<notin> {''_id'', ''created_at'', ''updated_at''} \<longrightarrow> map_of doc f = map_of data f)
             \<and> get_document_by_id rt s' c ident
                 = Inr (Some (AList.update ''_id'' (VStr ident) doc))"
    using dec s' st(1) k by auto
qed

theorem create_then_find_by_id_witness:
  "db empty_store = Some (the (db empty_store))
   \<and> map_of [(''name'', VStr ''Pasta'')] ''_id'' = None
   \<and> fst (create_document example_runtime 7 1 empty_store ''category'' [(''name'', VStr ''Pasta'')])
       = Inr (oid_str 1)
   \<and> ObjectId (oid_str 1) = Inr 1
   \<and> get_document_by_id example_runtime
        (snd (create_document example_runtime 7 1 empty_store ''category''
                [(''name'', VStr ''Pasta'')]))
        ''category'' (oid_str 1)
       = Inr (Some [(''name'', VStr ''Pasta''), (''created_at'', VTime 7),
                    (''updated_at'', VTime 7), (''_id'', VStr (oid_str 1))])"
proof -
  let ?data = "[(''name'', VStr ''Pasta'')]"
  have h1: "db empty_store = Some (the (db empty_store))"
    by (simp add: empty_store_def)
  have h2: "map_of ?data ''_id'' = None \<or> (\<exists>k. map_of ?data ''_id'' = Some (VOid k))"
    by simp
  have new: "map_of ?data ''_id'' = None
      \<and> \<not> list_ex (has_id (VOid 1)) (the (db empty_store) ''category'')"
    by (simp add: empty_store_def)
  from create_then_find_by_id [OF h1 h2, of 1 "''category''" example_runtime 7] new
  obtain s' where c: "create_document example_runtime 7 1 empty_store ''category'' ?data
      = (Inr (oid_str 1), s')"
    by blast
  have "get_document_by_id example_runtime s' ''category'' (oid_str 1)
       = Inr (Some [(''name'', VStr ''Pasta''), (''created_at'', VTime 7),
                    (''updated_at'', VTime 7), (''_id'', VStr (oid_str 1))])"
    using c
    by (auto simp: create_document_def insert_one_def empty_store_def py_str_def
        get_document_by_id_def ObjectId_oid_str find_one_def has_id_def serialize_doc_def)
  with c h1 show ?thesis
    by (simp add: ObjectId_oid_str)
qed

text \<open>
  C4. An order request with no cart line fails with the HTTP 400 error
  \<open>Cart is empty\<close>, before any price is computed, and the store is as it was.
\<close>

theorem create_order_empty_cart:
  assumes "items payload = []"
  shows "create_order rt now tag fresh s payload = (Inl (HTTPException 400 ''Cart is empty''), s)"
  using assms by (simp add: create_order_def)

theorem create_order_empty_cart_witness:
  "items empty_cart = []
   \<and> create_order example_runtime 7 1 2 order_store empty_cart
       = (Inl (HTTPException 400 ''Cart is empty''), order_store)"
proof -
  have h: "items empty_cart = []"
    by (simp add: empty_cart_def)
  show ?thesis
    using h create_order_empty_cart [OF h, of example_runtime 7 1 2 order_store]
    by simp
qed

text \<open>
  C10. With limit 0 \<open>get_documents\<close> applies no limit: it returns what it returns
  without a limit, which without a sort is every matching record of the collection.
\<close>

theorem get_documents_limit_zero:
  assumes "db s = Some d"
  shows "get_documents rt s c flt (Some 0) None
           = Inr (map (\<lambda>doc. serialize_doc rt (Some doc))
                   (filter (rt_matches rt (case flt of None \<Rightarrow> [] | Some f \<Rightarrow> f)) (d c)))
         \<and> get_documents rt s c flt (Some 0) srt = get_documents rt s c flt None srt"
  using assms by (simp add: get_documents_def)

theorem get_documents_limit_zero_witness:
  "db category_store = Some (the (db category_store))
   \<and> get_documents example_runtime category_store ''category'' None (Some 0) None
       = Inr [Some [(''_id'', VStr (oid_str 1)), (''name'', VStr ''Pizza''),
                    (''updated_at'', VTime 5)]]
   \<and> get_documents example_runtime category_store ''category'' None (Some 0) None
       = get_documents example_runtime category_store ''category'' None None None"
proof -
  have h: "db category_store = Some (the (db category_store))"
    by (simp add: category_store_def)
  show ?thesis
    using h get_documents_limit_zero [OF h, of example_runtime "''category''" None None]
    by (simp add: get_documents_def category_store_def pizza_def example_runtime_def
        serialize_doc_def py_str_def)
qed




end
